theory Spec2Isabelle
  imports Complex_Main "HOL-Library.Monad_Syntax"
begin

section \<open>Damped harmonic oscillator: embedding of ex1.py\<close>

text \<open>
  The program evaluates four closed-form solutions of the damped oscillator on a
  time grid (\<open>analyse_vibrations\<close>) and draws them (\<open>create_plot\<close>).

  Numbers. The source computes with IEEE double precision numbers. Here a finite
  double is an exact \<open>real\<close> (rounding, overflow and underflow are not part of the
  model), and a value of type \<open>np_float\<close> is either \<open>Some x\<close>, a finite number, or
  \<open>None\<close>, a non-finite one (NaN or an infinity). The source has two operations that
  leave the finite numbers: the square root of a negative number and the division by
  zero. numpy does not raise there: it warns and yields NaN or an infinity. In every
  formula of \<open>analyse_vibrations\<close> a non-finite intermediate value makes the
  result non-finite (an infinite quotient is multiplied by \<open>sin 0\<close> or \<open>sinh 0\<close>,
  which is NaN, or squared and summed), so \<open>None\<close> is propagated by \<open>bind\<close>.
\<close>

type_synonym np_float = "real option"

definition np_sqrt :: "real \<Rightarrow> np_float" where
  "np_sqrt x = (if x < 0 then None else Some (sqrt x))"

definition np_div :: "real \<Rightarrow> real \<Rightarrow> np_float" where
  "np_div x y = (if y = 0 then None else Some (x / y))"

text \<open>
  \<open>np.linspace(start, stop, num)\<close> for \<open>num > 1\<close>: the samples
  \<open>start + i * step\<close> with \<open>step = (stop - start) / (num - 1)\<close>, the last one set
  to \<open>stop\<close>. For \<open>num = 1\<close> numpy returns the single sample \<open>start\<close>, for
  \<open>num = 0\<close> the empty array.
\<close>

definition linspace :: "real \<Rightarrow> real \<Rightarrow> nat \<Rightarrow> real list" where
  "linspace start stop num =
     (if num = 0 then []
      else if num = 1 then [start]
      else (let step = (stop - start) / real (num - 1);
                y = map (\<lambda>i. real i * step + start) [0..<num]
            in y[num - 1 := stop]))"

text \<open>\<open>np.abs\<close> on an array, and \<open>np.max\<close>, which is NaN as soon as one element is.\<close>

definition np_abs :: "np_float list \<Rightarrow> np_float list" where
  "np_abs xs = map (map_option abs) xs"

definition np_max2 :: "np_float \<Rightarrow> np_float \<Rightarrow> np_float" where
  "np_max2 a b = do { x \<leftarrow> a; y \<leftarrow> b; Some (max x y) }"

fun np_max :: "np_float list \<Rightarrow> np_float" where
  "np_max [] = None"
| "np_max (x # xs) = foldl np_max2 x xs"

text \<open>
  Python's builtin \<open>max(a, b, c, d)\<close> keeps the first argument and replaces it by a
  later one only when \<open>later > kept\<close> holds; a comparison with NaN is false.
\<close>

definition py_gt :: "np_float \<Rightarrow> np_float \<Rightarrow> bool" where
  "py_gt a b = (case (a, b) of (Some x, Some y) \<Rightarrow> x > y | _ \<Rightarrow> False)"

definition py_max :: "np_float \<Rightarrow> np_float list \<Rightarrow> np_float" where
  "py_max a rest = foldl (\<lambda>kept later. if py_gt later kept then later else kept) a rest"

subsection \<open>analyse_vibrations\<close>

record trajectory =
  t :: "real list"
  x_sans :: "np_float list"
  x_sous :: "np_float list"
  x_critique :: "np_float list"
  x_suramorti :: "np_float list"
  enveloppe_sous_pos :: "np_float list"
  enveloppe_sous_neg :: "np_float list"
  amplitude_max :: np_float

text \<open>The damped frequencies, the local variables of the same names (lines 18 and 31).\<close>

definition omega_d_sous :: "real \<Rightarrow> real \<Rightarrow> np_float" where
  "omega_d_sous omega_0 xi_sous =
     do { s \<leftarrow> np_sqrt (1 - xi_sous\<^sup>2); Some (omega_0 * s) }"

definition omega_d_sur :: "real \<Rightarrow> real \<Rightarrow> np_float" where
  "omega_d_sur omega_0 xi_suramorti =
     do { s \<leftarrow> np_sqrt (xi_suramorti\<^sup>2 - 1); Some (omega_0 * s) }"

definition analyse_vibrations ::
  "real \<Rightarrow> real \<Rightarrow> real \<Rightarrow> real \<Rightarrow> real \<Rightarrow> real \<Rightarrow> trajectory" where
  "analyse_vibrations omega_0 x0 v0 xi_sous xi_suramorti t_max =
     (let ts = linspace 0 t_max 2000;
          xi_sans = 0;
          omega_sans = do { s \<leftarrow> np_sqrt (1 - xi_sans\<^sup>2); Some (omega_0 * s) };
          xs_sans = map (\<lambda>ti. do {
              w \<leftarrow> omega_sans;
              q \<leftarrow> np_div v0 w;
              Some (x0 * cos (w * ti) + q * sin (w * ti)) }) ts;
          xs_sous = map (\<lambda>ti. do {
              wd \<leftarrow> omega_d_sous omega_0 xi_sous;
              q \<leftarrow> np_div (v0 + x0 * xi_sous * omega_0) wd;
              Some (exp (- xi_sous * omega_0 * ti) *
                    (x0 * cos (wd * ti) + q * sin (wd * ti))) }) ts;
          env_pos = map (\<lambda>ti. do {
              wd \<leftarrow> omega_d_sous omega_0 xi_sous;
              q \<leftarrow> np_div (v0 + x0 * xi_sous * omega_0) wd;
              r \<leftarrow> np_sqrt (x0\<^sup>2 + q\<^sup>2);
              Some (exp (- xi_sous * omega_0 * ti) * r) }) ts;
          env_neg = map (map_option uminus) env_pos;
          xs_critique = map (\<lambda>ti.
              Some (exp (- omega_0 * ti) * (x0 * (1 + omega_0 * ti) + v0 * ti))) ts;
          xs_suramorti = map (\<lambda>ti. do {
              wd \<leftarrow> omega_d_sur omega_0 xi_suramorti;
              q \<leftarrow> np_div (v0 + x0 * xi_suramorti * omega_0) wd;
              Some (exp (- xi_suramorti * omega_0 * ti) *
                    (x0 * cosh (wd * ti) + q * sinh (wd * ti))) }) ts;
          amp = py_max (np_max (np_abs xs_sans))
                  [np_max (np_abs xs_sous),
                   np_max (np_abs xs_critique),
                   np_max (np_abs xs_suramorti)]
      in \<lparr> t = ts, x_sans = xs_sans, x_sous = xs_sous, x_critique = xs_critique,
           x_suramorti = xs_suramorti, enveloppe_sous_pos = env_pos,
           enveloppe_sous_neg = env_neg, amplitude_max = amp \<rparr>)"

text \<open>
  The parameter sets the claims call valid. \<open>damping_ok\<close> is the part that the
  formulas need; \<open>valid_params\<close> adds the positive time horizon.
\<close>

definition damping_ok :: "real \<Rightarrow> real \<Rightarrow> real \<Rightarrow> bool" where
  "damping_ok omega_0 xi_sous xi_suramorti \<longleftrightarrow>
     0 < omega_0 \<and> 0 < xi_sous \<and> xi_sous < 1 \<and> 1 < xi_suramorti"

definition valid_params :: "real \<Rightarrow> real \<Rightarrow> real \<Rightarrow> real \<Rightarrow> bool" where
  "valid_params omega_0 xi_sous xi_suramorti t_max \<longleftrightarrow>
     damping_ok omega_0 xi_sous xi_suramorti \<and> 0 < t_max"

text \<open>
  The ranges of the six sliders of \<open>main\<close> (lines 128 to 143), the only place where
  the source restricts the parameters before it calls \<open>analyse_vibrations\<close>.
\<close>

definition main_sliders :: "real \<Rightarrow> real \<Rightarrow> real \<Rightarrow> real \<Rightarrow> real \<Rightarrow> real \<Rightarrow> bool" where
  "main_sliders omega_0 x0 v0 xi_sous xi_suramorti t_max \<longleftrightarrow>
     0.1 \<le> omega_0 \<and> omega_0 \<le> 10.0 \<and> 0.1 \<le> x0 \<and> x0 \<le> 10.0
     \<and> - 5.0 \<le> v0 \<and> v0 \<le> 5.0 \<and> 2 \<le> t_max \<and> t_max \<le> 20
     \<and> 0.01 \<le> xi_sous \<and> xi_sous \<le> 0.99 \<and> 1.01 \<le> xi_suramorti \<and> xi_suramorti \<le> 3.0"

subsection \<open>create_plot\<close>




section \<open>Supporting lemmas\<close>

subsection \<open>The time grid\<close>

lemma length_linspace: "length (linspace a b n) = n"
  by (simp add: linspace_def Let_def)

lemma nth_linspace:
  assumes "i < 2000"
  shows "linspace 0 tm 2000 ! i = real i * tm / 1999"
proof (cases "i = 1999")
  case True
  then show ?thesis by (simp add: linspace_def Let_def)
next
  case False
  with assms have "i < 1999" by simp
  then show ?thesis using assms by (simp add: linspace_def Let_def)
qed

lemma linspace_0: "linspace 0 tm 2000 ! 0 = 0"
  using nth_linspace[of 0 tm] by simp

lemma first_sample:
  "map f (linspace 0 tm 2000) ! 0 = f 0"
  by (simp add: length_linspace linspace_0)


subsection \<open>The sequences on valid damping parameters\<close>

lemma sq_lt_1: "0 < (x::real) \<Longrightarrow> x < 1 \<Longrightarrow> x\<^sup>2 < 1"
  by (simp add: abs_square_less_1)

lemma one_lt_sq: "1 < (x::real) \<Longrightarrow> 1 < x\<^sup>2"
  by (simp add: one_less_power)

lemma omega_d_sous_ok:
  assumes "0 < omega_0" "0 < xi" "xi < 1"
  shows "omega_d_sous omega_0 xi = Some (omega_0 * sqrt (1 - xi\<^sup>2))"
    and "0 < omega_0 * sqrt (1 - xi\<^sup>2)"
proof -
  have "xi\<^sup>2 < 1" using assms sq_lt_1 by simp
  then show "omega_d_sous omega_0 xi = Some (omega_0 * sqrt (1 - xi\<^sup>2))"
    by (simp add: omega_d_sous_def np_sqrt_def)
  show "0 < omega_0 * sqrt (1 - xi\<^sup>2)" using assms \<open>xi\<^sup>2 < 1\<close> by simp
qed

lemma omega_d_sur_ok:
  assumes "0 < omega_0" "1 < xi"
  shows "omega_d_sur omega_0 xi = Some (omega_0 * sqrt (xi\<^sup>2 - 1))"
    and "0 < omega_0 * sqrt (xi\<^sup>2 - 1)"
proof -
  have "1 < xi\<^sup>2" using assms one_lt_sq by simp
  then show "omega_d_sur omega_0 xi = Some (omega_0 * sqrt (xi\<^sup>2 - 1))"
    by (simp add: omega_d_sur_def np_sqrt_def)
  show "0 < omega_0 * sqrt (xi\<^sup>2 - 1)" using assms \<open>1 < xi\<^sup>2\<close> by simp
qed


lemma x_sans_av:
  assumes "0 < omega_0"
  shows "x_sans (analyse_vibrations omega_0 x0 v0 xi_sous xi_suramorti t_max) =
    map (\<lambda>ti. Some (x0 * cos (omega_0 * ti) + v0 / omega_0 * sin (omega_0 * ti))) (linspace 0 t_max 2000)"
  using assms by (simp add: analyse_vibrations_def Let_def np_sqrt_def np_div_def)

lemma x_sous_av:
  assumes "0 < omega_0" "0 < xi_sous" "xi_sous < 1"
  shows "x_sous (analyse_vibrations omega_0 x0 v0 xi_sous xi_suramorti t_max) =
    map (\<lambda>ti. Some (exp (- xi_sous * omega_0 * ti) *
          (x0 * cos (omega_0 * sqrt (1 - xi_sous\<^sup>2) * ti) +
           (v0 + x0 * xi_sous * omega_0) / (omega_0 * sqrt (1 - xi_sous\<^sup>2)) *
             sin (omega_0 * sqrt (1 - xi_sous\<^sup>2) * ti)))) (linspace 0 t_max 2000)"
proof -
  have "xi_sous\<^sup>2 < 1" using assms sq_lt_1 by simp
  then have "xi_sous\<^sup>2 \<noteq> 1" "\<not> 1 < xi_sous\<^sup>2" by simp_all
  then show ?thesis using assms
    by (simp add: analyse_vibrations_def Let_def np_div_def omega_d_sous_def np_sqrt_def)
qed



lemma x_critique_av:
  shows "x_critique (analyse_vibrations omega_0 x0 v0 xi_sous xi_suramorti t_max) =
    map (\<lambda>ti. Some (exp (- omega_0 * ti) * (x0 * (1 + omega_0 * ti) + v0 * ti))) (linspace 0 t_max 2000)"
  by (simp add: analyse_vibrations_def Let_def)

lemma x_suramorti_av:
  assumes "0 < omega_0" "1 < xi_suramorti"
  shows "x_suramorti (analyse_vibrations omega_0 x0 v0 xi_sous xi_suramorti t_max) =
    map (\<lambda>ti. Some (exp (- xi_suramorti * omega_0 * ti) *
          (x0 * cosh (omega_0 * sqrt (xi_suramorti\<^sup>2 - 1) * ti) +
           (v0 + x0 * xi_suramorti * omega_0) / (omega_0 * sqrt (xi_suramorti\<^sup>2 - 1)) *
             sinh (omega_0 * sqrt (xi_suramorti\<^sup>2 - 1) * ti)))) (linspace 0 t_max 2000)"
proof -
  have "1 < xi_suramorti\<^sup>2" using assms one_lt_sq by simp
  then have "xi_suramorti\<^sup>2 \<noteq> 1" "\<not> xi_suramorti\<^sup>2 < 1" by simp_all
  then show ?thesis using assms
    by (simp add: analyse_vibrations_def Let_def np_div_def omega_d_sur_def np_sqrt_def)
qed


lemma main_sliders_valid:
  assumes "main_sliders omega_0 x0 v0 xi_sous xi_suramorti t_max"
  shows "valid_params omega_0 xi_sous xi_suramorti t_max"
  using assms by (simp add: main_sliders_def valid_params_def damping_ok_def)

subsection \<open>The envelope inequality\<close>




subsection \<open>Maxima\<close>










subsection \<open>The figure\<close>



subsection \<open>Two square roots\<close>

lemma sqrt_096: "\<bar>2 * sqrt (1 - (1/5)\<^sup>2) - 1.9596\<bar> < (0.00005::real)"
proof -
  have eq: "1 - (1/5)\<^sup>2 = (24/25::real)" by (simp add: power2_eq_square)
  have lo: "(979775/1000000::real) < sqrt (24/25)"
    by (rule real_less_rsqrt) (simp add: power2_eq_square)
  have hi: "sqrt (24/25) < (979825/1000000::real)"
    by (rule real_less_lsqrt) (simp_all add: power2_eq_square)
  have "\<bar>2 * sqrt (24/25) - 19596/10000\<bar> < (5/100000::real)"
    using lo hi by linarith
  then show ?thesis unfolding eq by simp
qed

lemma sqrt_125: "\<bar>2 * sqrt ((3/2)\<^sup>2 - 1) - 2.2361\<bar> < (0.00005::real)"
proof -
  have eq: "(3/2)\<^sup>2 - 1 = (5/4::real)" by (simp add: power2_eq_square)
  have lo: "(1118025/1000000::real) < sqrt (5/4)"
    by (rule real_less_rsqrt) (simp add: power2_eq_square)
  have hi: "sqrt (5/4) < (1118075/1000000::real)"
    by (rule real_less_lsqrt) (simp_all add: power2_eq_square)
  have "\<bar>2 * sqrt (5/4) - 22361/10000\<bar> < (5/100000::real)"
    using lo hi by linarith
  then show ?thesis unfolding eq by simp
qed

section \<open>The claims\<close>















text \<open>
  C7. For \<open>omega_0 = 2.0\<close>, \<open>x0 = 1.0\<close>, \<open>v0 = 0.5\<close>, \<open>xi_sous = 0.2\<close>,
  \<open>xi_suramorti = 1.5\<close>, \<open>t_max = 8\<close> the four displacement sequences start with
  1.0, the underdamped damped frequency is \<open>2 * sqrt (1 - 0.04)\<close>, which is 1.9596 to
  four decimals, and the overdamped one is \<open>2 * sqrt 1.25\<close>, which is 2.2361 to four
  decimals (\<open>(1/5)\<^sup>2 = 0.04\<close> and \<open>(3/2)\<^sup>2 - 1 = 1.25\<close>).
\<close>

theorem example_values:
  "x_sans (analyse_vibrations 2 1 (1/2) (1/5) (3/2) 8) ! 0 = Some 1
   \<and> x_sous (analyse_vibrations 2 1 (1/2) (1/5) (3/2) 8) ! 0 = Some 1
   \<and> x_critique (analyse_vibrations 2 1 (1/2) (1/5) (3/2) 8) ! 0 = Some 1
   \<and> x_suramorti (analyse_vibrations 2 1 (1/2) (1/5) (3/2) 8) ! 0 = Some 1
   \<and> omega_d_sous 2 (1/5) = Some (2 * sqrt (1 - (1/5)\<^sup>2))
   \<and> \<bar>2 * sqrt (1 - (1/5)\<^sup>2) - 1.9596\<bar> < (0.00005::real)
   \<and> omega_d_sur 2 (3/2) = Some (2 * sqrt ((3/2)\<^sup>2 - 1))
   \<and> \<bar>2 * sqrt ((3/2)\<^sup>2 - 1) - 2.2361\<bar> < (0.00005::real)"
proof -
  have w: "(0::real) < 2" and u: "(0::real) < 1/5" "(1/5::real) < 1" and s: "(1::real) < 3/2"
    by simp_all
  have "x_sans (analyse_vibrations 2 1 (1/2) (1/5) (3/2) 8) ! 0 = Some 1"
    unfolding x_sans_av[OF w] first_sample by simp
  moreover have "x_sous (analyse_vibrations 2 1 (1/2) (1/5) (3/2) 8) ! 0 = Some 1"
    unfolding x_sous_av[OF w u] first_sample by simp
  moreover have "x_critique (analyse_vibrations 2 1 (1/2) (1/5) (3/2) 8) ! 0 = Some 1"
    unfolding x_critique_av first_sample by simp
  moreover have "x_suramorti (analyse_vibrations 2 1 (1/2) (1/5) (3/2) 8) ! 0 = Some 1"
    unfolding x_suramorti_av[OF w s] first_sample by simp
  moreover note omega_d_sous_ok(1)[OF w u] omega_d_sur_ok(1)[OF w s] sqrt_096 sqrt_125
  ultimately show ?thesis by blast
qed



text \<open>
  C9. The number of samples is the constant 2000 of the source, whatever the six
  parameters are: the time grid, the four displacement sequences and the two
  envelopes all have exactly 2000 elements.
\<close>

theorem sample_count_fixed:
  "length (t (analyse_vibrations omega_0 x0 v0 xi_sous xi_suramorti t_max)) = 2000
   \<and> length (x_sans (analyse_vibrations omega_0 x0 v0 xi_sous xi_suramorti t_max)) = 2000
   \<and> length (x_sous (analyse_vibrations omega_0 x0 v0 xi_sous xi_suramorti t_max)) = 2000
   \<and> length (x_critique (analyse_vibrations omega_0 x0 v0 xi_sous xi_suramorti t_max)) = 2000
   \<and> length (x_suramorti (analyse_vibrations omega_0 x0 v0 xi_sous xi_suramorti t_max)) = 2000
   \<and> length (enveloppe_sous_pos (analyse_vibrations omega_0 x0 v0 xi_sous xi_suramorti t_max)) = 2000
   \<and> length (enveloppe_sous_neg (analyse_vibrations omega_0 x0 v0 xi_sous xi_suramorti t_max)) = 2000"
  by (simp add: analyse_vibrations_def Let_def length_linspace)



end
